theory Spec2Isabelle
  imports Complex_Main "HOL-Library.Char_ord" "HOL-Library.List_Lexorder"
begin

section \<open>Data model (interfaces/shopping-item.interface.ts)\<close>

text \<open>
  A JavaScript \<open>number\<close> is modelled as a \<^typ>\<open>real\<close>: products and sums are exact, and
  NaN, the infinities and IEEE rounding are outside the model. A JavaScript string is a
  \<^typ>\<open>string\<close>; the few non-ASCII letters of the source's literals are written as their
  UTF-8 bytes.

  \<open>Omit<ShoppingItem, 'id' | 'totalCost'>\<close>, the argument type of \<open>addItem\<close>, is the
  parent record \<open>draft\<close>; \<open>ShoppingItem\<close> extends it by the two omitted fields. The field
  \<open>id\<close> is named \<open>item_id\<close>, since \<open>id\<close> is the identity function of HOL.
\<close>

record draft =
  name :: string
  category :: string
  quantity :: real
  unit :: string
  pricePerUnit :: real
  purchased :: bool

record ShoppingItem = draft +
  item_id :: string
  totalCost :: real

text \<open>
  \<open>Partial<ShoppingItem>\<close>, the argument type of \<open>updateItem\<close>: every field of
  \<open>ShoppingItem\<close> may be present (\<open>Some\<close>) or absent (\<open>None\<close>).
\<close>

record updates =
  upd_item_id :: "string option"
  upd_name :: "string option"
  upd_category :: "string option"
  upd_quantity :: "real option"
  upd_unit :: "string option"
  upd_pricePerUnit :: "real option"
  upd_totalCost :: "real option"
  upd_purchased :: "bool option"

text \<open>The object literal \<open>{}\<close> at type \<open>Partial<ShoppingItem>\<close>.\<close>

definition no_updates :: updates where
  "no_updates = \<lparr>upd_item_id = None, upd_name = None, upd_category = None,
     upd_quantity = None, upd_unit = None, upd_pricePerUnit = None,
     upd_totalCost = None, upd_purchased = None\<rparr>"

text \<open>
  \<open>GeneratedShoppingItem\<close>, an entry of the parsed material list. The fields are taken at
  their declared types, except that \<open>category\<close> and \<open>unit\<close> may be missing from the
  entry (\<open>None\<close>): the code defaults them.
\<close>

record GeneratedShoppingItem =
  gen_name :: string
  gen_category :: "string option"
  gen_quantity :: real
  gen_unit :: "string option"
  estimatedPricePerUnit :: real

record GeneratedProductSuggestion =
  productName :: string
  suggestedPrice :: real
  webShopLink :: string
  sug_category :: string
  storeName :: string
  originalShoppingItemName :: string

text \<open>
  What \<open>JSON.parse\<close> returns where the code expects an array: an array, or a JSON value
  that is not one (the properties of an object are not modelled).
\<close>

datatype non_array = JNull | JBoolean bool | JNumber real | JString string | JObject

datatype 'a parsed = NotAnArray non_array | AnArray "'a list"

record CategorizedShoppingItem =
  categoryName :: string
  items :: "ShoppingItem list"

section \<open>The service state (services/renovation.service.ts)\<close>

text \<open>
  The signals of \<open>RenovationService\<close>, one field each. \<open>shoppingListSuggestions\<close> holds
  whatever \<open>JSON.parse\<close> returned for the last answer: the code stores it unchecked.
\<close>

record service =
  itemsSignal :: "ShoppingItem list"
  isGenerating :: bool
  aiError :: "string option"
  detailedAnalysisResult :: "string option"
  isGeneratingDetailedAnalysis :: bool
  shoppingListSuggestions :: "GeneratedProductSuggestion parsed"
  isGeneratingShoppingList :: bool
  operationalBriefResult :: "string option"
  isGeneratingOperationalBrief :: bool
  userBudget :: real

text \<open>The initial values of the signals.\<close>

definition initial_service :: service where
  "initial_service = \<lparr>itemsSignal = [], isGenerating = False, aiError = None,
     detailedAnalysisResult = None, isGeneratingDetailedAnalysis = False,
     shoppingListSuggestions = AnArray [], isGeneratingShoppingList = False,
     operationalBriefResult = None, isGeneratingOperationalBrief = False,
     userBudget = 0\<rparr>"

definition allItems :: "service \<Rightarrow> ShoppingItem list" where
  "allItems s = itemsSignal s"

subsection \<open>String literals and the operator \<open>||\<close>\<close>

text \<open>\<open>'Nekategorizirano'\<close> ("uncategorized") and \<open>'kom'\<close> ("piece").\<close>

definition Nekategorizirano :: string where
  "Nekategorizirano = ''Nekategorizirano''"

definition kom :: string where
  "kom = ''kom''"

text \<open>\<open>a || b\<close> on strings: the empty string is the only falsy string.\<close>

definition or_else :: "string \<Rightarrow> string \<Rightarrow> string" where
  "or_else a b = (if a = [] then b else a)"

text \<open>\<open>a || b\<close> where \<open>a\<close> may be \<open>undefined\<close>.\<close>

definition opt_or_else :: "string option \<Rightarrow> string \<Rightarrow> string" where
  "opt_or_else a b = (case a of None \<Rightarrow> b | Some v \<Rightarrow> or_else v b)"

section \<open>Item store: addItem, updateItem, removeItem, clearAllItems\<close>

text \<open>
  \<open>addItem\<close>. The argument \<open>now\<close> is the value of \<open>Date.now().toString()\<close> at the call.
\<close>

definition newItem :: "string \<Rightarrow> draft \<Rightarrow> ShoppingItem" where
  "newItem now item =
     \<lparr>name = name item,
      category = or_else (category item) Nekategorizirano,
      quantity = quantity item,
      unit = or_else (unit item) kom,
      pricePerUnit = pricePerUnit item,
      purchased = purchased item,
      item_id = now,
      totalCost = quantity item * pricePerUnit item\<rparr>"

definition addItem :: "string \<Rightarrow> draft \<Rightarrow> service \<Rightarrow> service" where
  "addItem now item s = s\<lparr>itemsSignal := itemsSignal s @ [newItem now item]\<rparr>"

text \<open>
  \<open>{ ...item, ...updates }\<close>: every property present in \<open>updates\<close> overrides the one
  of \<open>item\<close>, \<open>id\<close> and \<open>totalCost\<close> included.
\<close>

definition spread :: "ShoppingItem \<Rightarrow> updates \<Rightarrow> ShoppingItem" where
  "spread item u =
     \<lparr>name = (case upd_name u of None \<Rightarrow> name item | Some v \<Rightarrow> v),
      category = (case upd_category u of None \<Rightarrow> category item | Some v \<Rightarrow> v),
      quantity = (case upd_quantity u of None \<Rightarrow> quantity item | Some v \<Rightarrow> v),
      unit = (case upd_unit u of None \<Rightarrow> unit item | Some v \<Rightarrow> v),
      pricePerUnit = (case upd_pricePerUnit u of None \<Rightarrow> pricePerUnit item | Some v \<Rightarrow> v),
      purchased = (case upd_purchased u of None \<Rightarrow> purchased item | Some v \<Rightarrow> v),
      item_id = (case upd_item_id u of None \<Rightarrow> item_id item | Some v \<Rightarrow> v),
      totalCost = (case upd_totalCost u of None \<Rightarrow> totalCost item | Some v \<Rightarrow> v)\<rparr>"

text \<open>The body of the callback given to \<open>items.map\<close> for an item whose id matches.\<close>

definition updatedItem :: "ShoppingItem \<Rightarrow> updates \<Rightarrow> ShoppingItem" where
  "updatedItem item u =
     (let i1 = spread item u;
          i2 = (if upd_quantity u \<noteq> None \<or> upd_pricePerUnit u \<noteq> None
                then i1\<lparr>totalCost := quantity i1 * pricePerUnit i1\<rparr> else i1);
          i3 = (case upd_category u of None \<Rightarrow> i2
                | Some c \<Rightarrow> i2\<lparr>category := or_else c Nekategorizirano\<rparr>);
          i4 = (case upd_unit u of None \<Rightarrow> i3
                | Some c \<Rightarrow> i3\<lparr>unit := or_else c kom\<rparr>)
      in i4)"

definition updateItem :: "string \<Rightarrow> updates \<Rightarrow> service \<Rightarrow> service" where
  "updateItem i u s =
     s\<lparr>itemsSignal :=
         map (\<lambda>item. if item_id item = i then updatedItem item u else item) (itemsSignal s)\<rparr>"

definition removeItem :: "string \<Rightarrow> service \<Rightarrow> service" where
  "removeItem i s = s\<lparr>itemsSignal := filter (\<lambda>item. item_id item \<noteq> i) (itemsSignal s)\<rparr>"

definition clearAllItems :: "service \<Rightarrow> service" where
  "clearAllItems s = s\<lparr>itemsSignal := []\<rparr>"

subsection \<open>Derived values: totalBudget, budgetDifference\<close>

text \<open>\<open>this.itemsSignal().reduce((sum, item) => sum + item.totalCost, 0)\<close>.\<close>

definition totalBudget :: "service \<Rightarrow> real" where
  "totalBudget s = foldl (\<lambda>sum item. sum + totalCost item) 0 (itemsSignal s)"

definition budgetDifference :: "service \<Rightarrow> real" where
  "budgetDifference s = userBudget s - totalBudget s"

subsection \<open>Sequences of store operations\<close>

text \<open>One call of a public store operation, with its arguments.\<close>

datatype crud =
  Add string draft
| Update string updates
| Remove string
| Clear

fun crud_step :: "crud \<Rightarrow> service \<Rightarrow> service" where
  "crud_step (Add now d) s = addItem now d s"
| "crud_step (Update i u) s = updateItem i u s"
| "crud_step (Remove i) s = removeItem i s"
| "crud_step Clear s = clearAllItems s"

text \<open>The calls of a list, made from left to right.\<close>

definition crud_run :: "crud list \<Rightarrow> service \<Rightarrow> service" where
  "crud_run ops s = fold crud_step ops s"


text \<open>
  The one kind of call that writes \<open>totalCost\<close> without recomputing it: an update that
  carries \<open>totalCost\<close> and neither \<open>quantity\<close> nor \<open>pricePerUnit\<close>.
\<close>

fun sets_totalCost_alone :: "crud \<Rightarrow> bool" where
  "sets_totalCost_alone (Update i u) =
     (upd_totalCost u \<noteq> None \<and> upd_quantity u = None \<and> upd_pricePerUnit u = None)"
| "sets_totalCost_alone (Add now d) = False"
| "sets_totalCost_alone (Remove i) = False"
| "sets_totalCost_alone Clear = False"

definition cost_consistent :: "ShoppingItem \<Rightarrow> bool" where
  "cost_consistent item = (totalCost item = quantity item * pricePerUnit item)"

section \<open>Derived view: categorizedItems, categoryCosts\<close>

subsection \<open>Platform functions the views call\<close>

text \<open>
  \<open>String.prototype.trim\<close> is a function of the platform, like \<open>localeCompare\<close> and
  \<open>JSON.parse\<close>: every definition that calls it takes it as the argument \<open>trim\<close>
  (\<open>trim s\<close> being \<open>s.trim()\<close>), and every result holds for whatever the platform's
  function is. \<open>ascii_trim\<close> stands for it in the concrete evaluations: it strips tab,
  line feed, vertical tab, form feed, carriage return and space, which is what
  \<open>String.prototype.trim\<close> does on a string of ASCII characters.
\<close>

definition js_whitespace :: "char \<Rightarrow> bool" where
  "js_whitespace c = (of_char c \<in> {9, 10, 11, 12, 13, 32 :: int})"

definition ascii_trim :: "string \<Rightarrow> string" where
  "ascii_trim s = rev (dropWhile js_whitespace (rev (dropWhile js_whitespace s)))"

text \<open>
  An exception object, by its \<open>message\<close> property (\<open>None\<close> when the property is
  \<open>undefined\<close>).
\<close>

datatype js_error = Thrown (message: "string option")

text \<open>
  \<open>Array.prototype.sort(cmp)\<close>: the sort is stable, and \<open>a\<close> stays before \<open>b\<close> when
  \<open>cmp(a, b) \<le> 0\<close>. For a comparator that is a consistent ordering, which is what
  ECMAScript requires for a defined result, this is insertion from the right.
\<close>

fun insort_by :: "('a \<Rightarrow> 'a \<Rightarrow> int) \<Rightarrow> 'a \<Rightarrow> 'a list \<Rightarrow> 'a list" where
  "insort_by cmp x [] = [x]"
| "insort_by cmp x (y # ys) = (if cmp x y \<le> 0 then x # y # ys else y # insort_by cmp x ys)"

definition sort_by :: "('a \<Rightarrow> 'a \<Rightarrow> int) \<Rightarrow> 'a list \<Rightarrow> 'a list" where
  "sort_by cmp xs = foldr (insort_by cmp) xs []"

text \<open>
  The property names every plain object \<open>{}\<close> inherits from \<open>Object.prototype\<close>
  (ECMAScript, Annex B included). Reading one of them on \<open>{}\<close> gives the inherited
  function or object, which is truthy and has no \<open>push\<close>.
\<close>

definition object_prototype_keys :: "string list" where
  "object_prototype_keys =
     [''constructor'', ''hasOwnProperty'', ''isPrototypeOf'', ''propertyIsEnumerable'',
      ''toLocaleString'', ''toString'', ''valueOf'', ''__proto__'',
      ''__defineGetter__'', ''__defineSetter__'', ''__lookupGetter__'', ''__lookupSetter__'']"

text \<open>
  \<open>Object.keys\<close> lists the array-index keys (canonical decimal numerals below
  \<open>2^32 - 1\<close>) first, in ascending numeric order, then the other string keys in the
  order of their creation.
\<close>

definition is_digit :: "char \<Rightarrow> bool" where
  "is_digit c = (48 \<le> (of_char c :: int) \<and> (of_char c :: int) \<le> 57)"

definition index_value :: "string \<Rightarrow> int" where
  "index_value k = foldl (\<lambda>a c. 10 * a + (of_char c - 48)) 0 k"

definition is_array_index :: "string \<Rightarrow> bool" where
  "is_array_index k =
     (k \<noteq> [] \<and> list_all is_digit k \<and> (k = ''0'' \<or> hd k \<noteq> CHR ''0'')
      \<and> index_value k < 4294967295)"

definition own_keys :: "string list \<Rightarrow> string list" where
  "own_keys ks =
     sort_key index_value (filter is_array_index ks) @ filter (\<lambda>k. \<not> is_array_index k) ks"

subsection \<open>categorizedItems\<close>

text \<open>\<open>item.category?.trim() || 'Nekategorizirano'\<close>.\<close>

definition category_key :: "(string \<Rightarrow> string) \<Rightarrow> ShoppingItem \<Rightarrow> string" where
  "category_key trim item = or_else (trim (category item)) Nekategorizirano"

text \<open>
  The object \<open>categories\<close> as the list of its own properties in creation order.
  \<open>push_item\<close> is \<open>categories[category] = []\<close> (when the key is new) followed by
  \<open>categories[category].push(item)\<close>.
\<close>

fun push_item :: "string \<Rightarrow> ShoppingItem \<Rightarrow> (string \<times> ShoppingItem list) list
    \<Rightarrow> (string \<times> ShoppingItem list) list" where
  "push_item c item [] = [(c, [item])]"
| "push_item c item ((k, v) # kvs) =
     (if k = c then (k, v @ [item]) # kvs else (k, v) # push_item c item kvs)"

definition push_is_not_a_function :: string where
  "push_is_not_a_function = ''categories[category].push is not a function''"

text \<open>
  The \<open>forEach\<close> loop. For a category that names an inherited property,
  \<open>categories[category]\<close> is truthy although the object has no such own property, no
  array is stored, and the call of \<open>push\<close> throws a TypeError.
\<close>

fun group_items :: "(string \<Rightarrow> string) \<Rightarrow> ShoppingItem list
    \<Rightarrow> (string \<times> ShoppingItem list) list
    \<Rightarrow> js_error + (string \<times> ShoppingItem list) list" where
  "group_items trim [] categories = Inr categories"
| "group_items trim (item # rest) categories =
     (if category_key trim item \<in> set object_prototype_keys
      then Inl (Thrown (Some push_is_not_a_function))
      else group_items trim rest (push_item (category_key trim item) item categories))"

text \<open>
  \<open>categorizedItems\<close>. The argument \<open>lc\<close> is the platform's
  \<open>String.prototype.localeCompare\<close>, \<open>lc a b\<close> being \<open>a.localeCompare(b)\<close>; \<open>trim\<close> is
  its \<open>String.prototype.trim\<close>.
\<close>

definition lookup_group :: "(string \<times> ShoppingItem list) list \<Rightarrow> string \<Rightarrow> ShoppingItem list" where
  "lookup_group categories k = (case map_of categories k of None \<Rightarrow> [] | Some v \<Rightarrow> v)"

definition categorizedItems :: "(string \<Rightarrow> string) \<Rightarrow> (string \<Rightarrow> string \<Rightarrow> int) \<Rightarrow> service
    \<Rightarrow> js_error + CategorizedShoppingItem list" where
  "categorizedItems trim lc s =
     (case group_items trim (itemsSignal s) [] of
        Inl e \<Rightarrow> Inl e
      | Inr grouped \<Rightarrow>
          (let categories = map (\<lambda>(k, v). (k, sort_by (\<lambda>a b. lc (name a) (name b)) v)) grouped;
               sortedCategories = sort_by lc (own_keys (map fst categories))
           in Inr (map (\<lambda>k. \<lparr>categoryName = k, items = lookup_group categories k\<rparr>)
                     sortedCategories)))"

subsection \<open>categoryCosts\<close>

text \<open>
  \<open>costsMap.set(category, (costsMap.get(category) || 0) + item.totalCost)\<close> on a
  \<open>Map\<close>, as the list of its entries in insertion order.
\<close>

fun add_cost :: "string \<Rightarrow> real \<Rightarrow> (string \<times> real) list \<Rightarrow> (string \<times> real) list" where
  "add_cost c x [] = [(c, 0 + x)]"
| "add_cost c x ((k, v) # kvs) = (if k = c then (k, v + x) # kvs else (k, v) # add_cost c x kvs)"

definition categoryCosts :: "(string \<Rightarrow> string) \<Rightarrow> (string \<Rightarrow> string \<Rightarrow> int) \<Rightarrow> service
    \<Rightarrow> (string \<times> real) list" where
  "categoryCosts trim lc s =
     sort_by (\<lambda>a b. lc (fst a) (fst b))
       (fold (\<lambda>item costsMap. add_cost (category_key trim item) (totalCost item) costsMap)
          (itemsSignal s) [])"

text \<open>
  A comparison of strings by their bytes, standing for \<open>localeCompare\<close> in the concrete
  evaluations.
\<close>

definition byte_compare :: "string \<Rightarrow> string \<Rightarrow> int" where
  "byte_compare a b = (if a < b then - 1 else if a = b then 0 else 1)"


section \<open>AI workflows\<close>

subsection \<open>Asynchronous methods as programs over the signals\<close>

text \<open>
  What \<open>this.ai.models.generateContent\<close> answers: the promise is rejected with an
  exception, or resolved with a response whose \<open>text\<close> is the given string.
\<close>

datatype ai_result = Rejected js_error | Resolved string

text \<open>
  A request, by the workflow that sends it and the values its prompt embeds (the fixed
  text of the prompts and the response schema are left out).
\<close>

datatype request =
  MaterialsRequest string
| AnalysisRequest string
| SuggestionsRequest "GeneratedShoppingItem list"
| BriefRequest "string option" "ShoppingItem list" "GeneratedProductSuggestion list"

text \<open>
  An asynchronous method is a program: it reads the signals, writes a signal, or sends a
  request and continues with the answer once it is awaited.
\<close>

datatype proc =
  Done
| Get "service \<Rightarrow> proc"
| Write "service \<Rightarrow> service" proc
| Await request "ai_result \<Rightarrow> proc"

text \<open>
  Running a program against the service's answers \<open>ai\<close>, from the state \<open>s\<close>:
  \<open>trace\<close> lists the state after each write, in order; \<open>final\<close> is the state when the
  program ends; \<open>requests\<close> lists the requests sent. Nothing else writes the signals
  while a request is pending: the continuation resumes in the state the method left.
\<close>

primrec trace :: "(request \<Rightarrow> ai_result) \<Rightarrow> proc \<Rightarrow> service \<Rightarrow> service list" where
  "trace ai Done s = []"
| "trace ai (Get k) s = trace ai (k s) s"
| "trace ai (Write w p) s = w s # trace ai p (w s)"
| "trace ai (Await q k) s = trace ai (k (ai q)) s"

primrec final :: "(request \<Rightarrow> ai_result) \<Rightarrow> proc \<Rightarrow> service \<Rightarrow> service" where
  "final ai Done s = s"
| "final ai (Get k) s = final ai (k s) s"
| "final ai (Write w p) s = final ai p (w s)"
| "final ai (Await q k) s = final ai (k (ai q)) s"

primrec requests :: "(request \<Rightarrow> ai_result) \<Rightarrow> proc \<Rightarrow> service \<Rightarrow> request list" where
  "requests ai Done s = []"
| "requests ai (Get k) s = requests ai (k s) s"
| "requests ai (Write w p) s = requests ai p (w s)"
| "requests ai (Await q k) s = q # requests ai (k (ai q)) s"

subsection \<open>Messages\<close>

text \<open>The letters s and z with caron (U+0161, U+017E), in UTF-8.\<close>

definition s_caron :: string where
  "s_caron = [CHR 0xC5, CHR 0xA1]"


definition Nepoznata_greska :: string where
  "Nepoznata_greska = ''Nepoznata gre'' @ s_caron @ ''ka.''"

text \<open>\<open>error.message || unknown\<close>, where \<open>unknown\<close> is the literal above ("unknown error").\<close>

definition detail :: "js_error \<Rightarrow> string" where
  "detail e = opt_or_else (message e) Nepoznata_greska"

definition materials_error :: string where
  "materials_error = ''Gre'' @ s_caron @ ''ka pri generiranju popisa. Molimo poku''
     @ s_caron @ ''ajte ponovno. Detalji: ''"


definition suggestions_error :: string where
  "suggestions_error = ''Gre'' @ s_caron
     @ ''ka pri generiranju shopping liste. Molimo provjerite da imate stavke na popisu i poku''
     @ s_caron @ ''ajte ponovno. Detalji: ''"


definition list_is_empty :: string where
  "list_is_empty = ''Popis za kupnju je prazan. Dodajte stavke prije generiranja preporuka.''"


subsection \<open>generateRenovationMaterials\<close>

text \<open>
  The callback of \<open>generated.map\<close>. \<open>fresh\<close> is the value of
  \<open>Date.now().toString() + Math.random().toString(36).substring(2, 9)\<close> when the
  callback runs.
\<close>

definition toItem :: "string \<Rightarrow> GeneratedShoppingItem \<Rightarrow> ShoppingItem" where
  "toItem fresh genItem =
     \<lparr>name = gen_name genItem,
      category = opt_or_else (gen_category genItem) Nekategorizirano,
      quantity = gen_quantity genItem,
      unit = opt_or_else (gen_unit genItem) kom,
      pricePerUnit = estimatedPricePerUnit genItem,
      purchased = False,
      item_id = fresh,
      totalCost = gen_quantity genItem * estimatedPricePerUnit genItem\<rparr>"

text \<open>\<open>fresh k\<close> is the id drawn for the entry at index \<open>k\<close>.\<close>

definition itemsToAdd :: "(nat \<Rightarrow> string) \<Rightarrow> GeneratedShoppingItem list \<Rightarrow> ShoppingItem list" where
  "itemsToAdd fresh generated =
     map (\<lambda>(k, genItem). toItem (fresh k) genItem) (enumerate 0 generated)"

text \<open>The \<open>catch\<close> block followed by the \<open>finally\<close> block.\<close>

definition materials_failed :: "js_error \<Rightarrow> proc" where
  "materials_failed e =
     Write (\<lambda>s. s\<lparr>aiError := Some (materials_error @ detail e)\<rparr>)
    (Write (\<lambda>s. s\<lparr>isGenerating := False\<rparr>) Done)"

text \<open>
  What runs once the request is answered. \<open>parse\<close> is \<open>JSON.parse\<close>. Calling \<open>map\<close> on
  a parsed value \<open>v\<close> that is not an array throws a TypeError inside the \<open>try\<close>;
  \<open>map_throws v\<close> is that exception, its message being the engine's.
\<close>

definition materials_resume ::
    "(string \<Rightarrow> string) \<Rightarrow> (string \<Rightarrow> js_error + GeneratedShoppingItem parsed)
     \<Rightarrow> (non_array \<Rightarrow> js_error) \<Rightarrow> (nat \<Rightarrow> string) \<Rightarrow> ai_result \<Rightarrow> proc" where
  "materials_resume trim parse map_throws fresh r =
     (case r of
        Rejected e \<Rightarrow> materials_failed e
      | Resolved text \<Rightarrow>
          (case parse (trim text) of
             Inl e \<Rightarrow> materials_failed e
           | Inr (NotAnArray v) \<Rightarrow> materials_failed (map_throws v)
           | Inr (AnArray generated) \<Rightarrow>
               Write (\<lambda>s. s\<lparr>itemsSignal := itemsSignal s @ itemsToAdd fresh generated\<rparr>)
              (Write (\<lambda>s. s\<lparr>isGenerating := False\<rparr>) Done)))"

definition generateRenovationMaterials ::
    "(string \<Rightarrow> string) \<Rightarrow> (string \<Rightarrow> js_error + GeneratedShoppingItem parsed)
     \<Rightarrow> (non_array \<Rightarrow> js_error) \<Rightarrow> (nat \<Rightarrow> string) \<Rightarrow> string \<Rightarrow> proc" where
  "generateRenovationMaterials trim parse map_throws fresh userPrompt =
     Write (\<lambda>s. s\<lparr>isGenerating := True\<rparr>)
    (Write (\<lambda>s. s\<lparr>aiError := None\<rparr>)
    (Await (MaterialsRequest userPrompt) (materials_resume trim parse map_throws fresh)))"

subsection \<open>generateDetailedAnalysis\<close>



subsection \<open>generateShoppingListSuggestions\<close>

definition itemForPrompt :: "ShoppingItem \<Rightarrow> GeneratedShoppingItem" where
  "itemForPrompt item =
     \<lparr>gen_name = name item, gen_category = Some (category item),
      gen_quantity = quantity item, gen_unit = Some (unit item),
      estimatedPricePerUnit = pricePerUnit item\<rparr>"

definition suggestions_failed :: "js_error \<Rightarrow> proc" where
  "suggestions_failed e =
     Write (\<lambda>s. s\<lparr>aiError := Some (suggestions_error @ detail e)\<rparr>)
    (Write (\<lambda>s. s\<lparr>isGeneratingShoppingList := False\<rparr>) Done)"

text \<open>
  \<open>parse\<close> is \<open>JSON.parse\<close>. The code stores what it returns without looking at it, an
  array or not.
\<close>

definition suggestions_resume ::
    "(string \<Rightarrow> string) \<Rightarrow> (string \<Rightarrow> js_error + GeneratedProductSuggestion parsed)
     \<Rightarrow> ai_result \<Rightarrow> proc" where
  "suggestions_resume trim parse r =
     (case r of
        Rejected e \<Rightarrow> suggestions_failed e
      | Resolved text \<Rightarrow>
          (case parse (trim text) of
             Inl e \<Rightarrow> suggestions_failed e
           | Inr generated \<Rightarrow>
               Write (\<lambda>s. s\<lparr>shoppingListSuggestions := generated\<rparr>)
              (Write (\<lambda>s. s\<lparr>isGeneratingShoppingList := False\<rparr>) Done)))"

definition generateShoppingListSuggestions ::
    "(string \<Rightarrow> string) \<Rightarrow> (string \<Rightarrow> js_error + GeneratedProductSuggestion parsed)
     \<Rightarrow> ShoppingItem list \<Rightarrow> proc" where
  "generateShoppingListSuggestions trim parse shoppingItems =
     Write (\<lambda>s. s\<lparr>isGeneratingShoppingList := True\<rparr>)
    (Write (\<lambda>s. s\<lparr>aiError := None\<rparr>)
    (Write (\<lambda>s. s\<lparr>shoppingListSuggestions := AnArray []\<rparr>)
    (if length shoppingItems = 0
     then Write (\<lambda>s. s\<lparr>aiError := Some list_is_empty\<rparr>)
         (Write (\<lambda>s. s\<lparr>isGeneratingShoppingList := False\<rparr>) Done)
     else Await (SuggestionsRequest (map itemForPrompt shoppingItems))
            (suggestions_resume trim parse))))"

subsection \<open>generateOperationalBrief\<close>




section \<open>The handlers of the planner component\<close>

text \<open>
  \<open>onGenerateList\<close> and \<open>onGenerateShoppingList\<close> of \<open>RenovationPlannerComponent\<close>, as
  programs over the signals of the service. The argument \<open>aiPrompt\<close> is the value of the
  component's own signal \<open>aiPrompt\<close>; the reset of that signal after the awaited call
  writes no signal of the service and is not part of the program.
\<close>

definition enter_description :: string where
  "enter_description = ''Molimo unesite opis stana za generiranje popisa.''"

definition your_list_is_empty :: string where
  "your_list_is_empty = ''Va'' @ s_caron
     @ '' popis za kupnju je prazan. Dodajte stavke prije generiranja preporuka za shopping listu.''"

definition onGenerateList ::
    "(string \<Rightarrow> string) \<Rightarrow> (string \<Rightarrow> js_error + GeneratedShoppingItem parsed)
     \<Rightarrow> (non_array \<Rightarrow> js_error) \<Rightarrow> (nat \<Rightarrow> string) \<Rightarrow> string \<Rightarrow> proc" where
  "onGenerateList trim parse map_throws fresh aiPrompt =
     (let prompt = trim aiPrompt
      in if prompt = []
         then Write (\<lambda>s. s\<lparr>aiError := Some enter_description\<rparr>) Done
         else generateRenovationMaterials trim parse map_throws fresh prompt)"

definition onGenerateShoppingList ::
    "(string \<Rightarrow> string) \<Rightarrow> (string \<Rightarrow> js_error + GeneratedProductSuggestion parsed) \<Rightarrow> proc" where
  "onGenerateShoppingList trim parse =
     Get (\<lambda>s. let items = allItems s
              in if length items = 0
                 then Write (\<lambda>s. s\<lparr>aiError := Some your_list_is_empty\<rparr>) Done
                 else generateShoppingListSuggestions trim parse items)"

section \<open>Concrete states and answers used in the evaluations\<close>

definition two_items :: service where
  "two_items = initial_service\<lparr>itemsSignal :=
     [\<lparr>name = ''Tile'', category = ''Flooring'', quantity = 2, unit = ''m2'',
       pricePerUnit = 3, purchased = False, item_id = ''1'', totalCost = 6\<rparr>,
      \<lparr>name = ''Paint'', category = ''Walls'', quantity = 1, unit = ''l'',
       pricePerUnit = 20, purchased = False, item_id = ''2'', totalCost = 20\<rparr>]\<rparr>"


text \<open>A service that is down, and one that answers every request with the same text.\<close>

definition unavailable :: "request \<Rightarrow> ai_result" where
  "unavailable q = Rejected (Thrown (Some ''503 Service Unavailable''))"

definition answers :: "string \<Rightarrow> request \<Rightarrow> ai_result" where
  "answers text q = Resolved text"

text \<open>
  Three behaviours of \<open>JSON.parse\<close> on the material list: a SyntaxError, a value that is
  not an array, and the array of the entry
  \<open>{"name":"Paint","category":"","quantity":5,"unit":"","estimatedPricePerUnit":20}\<close>
  followed by an entry without \<open>category\<close> and \<open>unit\<close>.
\<close>

definition unexpected_token :: "string \<Rightarrow> js_error + 'a" where
  "unexpected_token text = Inl (Thrown (Some ''Unexpected token < in JSON at position 0''))"



text \<open>
  The TypeError of V8 for \<open>generated.map(...)\<close> on a value that is not an array:
  \<open>null\<close> has no properties to read, the other values have no function \<open>map\<close>.
\<close>

definition v8_map_throws :: "non_array \<Rightarrow> js_error" where
  "v8_map_throws v =
     (case v of
        JNull \<Rightarrow> Thrown (Some (''Cannot read properties of null (reading ''
                  @ [CHR 0x27] @ ''map'' @ [CHR 0x27] @ '')''))
      | _ \<Rightarrow> Thrown (Some ''generated.map is not a function''))"

definition parses_to_paint :: "string \<Rightarrow> js_error + GeneratedShoppingItem parsed" where
  "parses_to_paint text = Inr (AnArray
     [\<lparr>gen_name = ''Paint'', gen_category = Some [], gen_quantity = 5,
       gen_unit = Some [], estimatedPricePerUnit = 20\<rparr>,
      \<lparr>gen_name = ''Brush'', gen_category = None, gen_quantity = 2,
       gen_unit = None, estimatedPricePerUnit = 4\<rparr>])"

definition example_ids :: "nat \<Rightarrow> string" where
  "example_ids k = (if k = 0 then ''1700000000000abcdefg'' else ''1700000000001hijklmn'')"

definition a_suggestion :: GeneratedProductSuggestion where
  "a_suggestion = \<lparr>productName = ''Oak parquet'', suggestedPrice = 30,
     webShopLink = ''https://example.com/p/1'', sug_category = ''Flooring'',
     storeName = ''Store'', originalShoppingItemName = ''Tile''\<rparr>"

definition empty_list_with_suggestions :: service where
  "empty_list_with_suggestions =
     initial_service\<lparr>shoppingListSuggestions := AnArray [a_suggestion]\<rparr>"

text \<open>
  A comparator \<open>Array.prototype.sort\<close> gives a defined result for: any two values are
  comparable, and the order is transitive. \<open>localeCompare\<close> is one.
\<close>

definition consistent_comparator :: "('a \<Rightarrow> 'a \<Rightarrow> int) \<Rightarrow> bool" where
  "consistent_comparator cmp =
     ((\<forall>a b. cmp a b \<le> 0 \<or> cmp b a \<le> 0)
      \<and> (\<forall>a b c. cmp a b \<le> 0 \<and> cmp b c \<le> 0 \<longrightarrow> cmp a c \<le> 0))"

text \<open>
  A collection whose categories differ only by surrounding white space or are empty, and
  one with an item of category \<open>'constructor'\<close>.
\<close>

definition mixed_categories :: service where
  "mixed_categories = initial_service\<lparr>itemsSignal :=
     [\<lparr>name = ''Primer'', category = ''Walls'', quantity = 1, unit = ''l'',
       pricePerUnit = 9, purchased = False, item_id = ''1'', totalCost = 9\<rparr>,
      \<lparr>name = ''Sink'', category = [], quantity = 1, unit = ''kom'',
       pricePerUnit = 80, purchased = False, item_id = ''2'', totalCost = 80\<rparr>,
      \<lparr>name = ''Paint'', category = ''  Walls '', quantity = 5, unit = ''l'',
       pricePerUnit = 20, purchased = False, item_id = ''3'', totalCost = 100\<rparr>]\<rparr>"

definition constructor_category :: service where
  "constructor_category = initial_service\<lparr>itemsSignal :=
     [\<lparr>name = ''Tile'', category = ''Flooring'', quantity = 2, unit = ''m2'',
       pricePerUnit = 3, purchased = False, item_id = ''1'', totalCost = 6\<rparr>,
      \<lparr>name = ''Cement'', category = ''constructor'', quantity = 4, unit = ''kg'',
       pricePerUnit = 5, purchased = False, item_id = ''2'', totalCost = 20\<rparr>]\<rparr>"

section \<open>Results: the item store\<close>

text \<open>
  Claim C1. For every draft, \<open>addItem\<close> returns (it has no failing branch) and the
  collection afterwards is the old collection followed by exactly one new item. Its
  \<open>totalCost\<close> is \<open>quantity * pricePerUnit\<close> of the draft; its category is
  \<open>'Nekategorizirano'\<close> when the draft's category is the empty string and the draft's
  category otherwise; its unit is \<open>'kom'\<close> when the draft's unit is the empty string and
  the draft's unit otherwise. No other signal changes.
\<close>

theorem addItem_appends_one:
  "\<exists>it. itemsSignal (addItem now d s) = itemsSignal s @ [it]
      \<and> totalCost it = quantity d * pricePerUnit d
      \<and> category it = (if category d = [] then ''Nekategorizirano'' else category d)
      \<and> unit it = (if unit d = [] then ''kom'' else unit d)
      \<and> name it = name d \<and> quantity it = quantity d
      \<and> pricePerUnit it = pricePerUnit d \<and> purchased it = purchased d
      \<and> item_id it = now
      \<and> addItem now d s = s\<lparr>itemsSignal := itemsSignal s @ [it]\<rparr>"
  by (simp add: addItem_def newItem_def or_else_def Nekategorizirano_def kom_def)

theorem addItem_appends_one_witness:
  "map (\<lambda>it. (name it, category it, unit it, totalCost it))
     (itemsSignal (addItem ''17''
        \<lparr>name = ''Tile'', category = '''', quantity = 10, unit = '''',
         pricePerUnit = 12, purchased = False\<rparr> initial_service))
   = [(''Tile'', ''Nekategorizirano'', ''kom'', 120)]"
  using addItem_appends_one [of "''17''"
      "\<lparr>name = ''Tile'', category = '''', quantity = 10, unit = '''',
        pricePerUnit = 12, purchased = False\<rparr>" initial_service]
  by (auto simp: initial_service_def)


subsection \<open>updateItem\<close>

lemma updatedItem_quantity_only:
  "updatedItem it (no_updates\<lparr>upd_quantity := Some q\<rparr>)
     = it\<lparr>quantity := q, totalCost := q * pricePerUnit it\<rparr>"
  by (simp add: updatedItem_def spread_def no_updates_def)

lemma map_unmatched_ident:
  "i \<notin> item_id ` set xs \<Longrightarrow> map (\<lambda>item. if item_id item = i then f item else item) xs = xs"
  by (induction xs) auto

text \<open>
  Claim C2. \<open>updateItem(id, {quantity: q})\<close> replaces every stored item whose id is
  \<open>id\<close> by the same item with quantity \<open>q\<close> and \<open>totalCost = q * pricePerUnit\<close> (the
  item's existing price), and leaves the other items as they are. For an id that no
  stored item has, \<open>updateItem(id, updates)\<close> returns the state it was given, whatever
  the updates: the collection is unchanged and the error slot is not written.
\<close>

theorem updateItem_quantity_recomputes:
  "itemsSignal (updateItem i (no_updates\<lparr>upd_quantity := Some q\<rparr>) s)
     = map (\<lambda>it. if item_id it = i
                 then it\<lparr>quantity := q, totalCost := q * pricePerUnit it\<rparr> else it)
         (itemsSignal s)
   \<and> (i \<notin> item_id ` set (itemsSignal s) \<longrightarrow> updateItem i u s = s)"
proof
  show "itemsSignal (updateItem i (no_updates\<lparr>upd_quantity := Some q\<rparr>) s)
     = map (\<lambda>it. if item_id it = i
                 then it\<lparr>quantity := q, totalCost := q * pricePerUnit it\<rparr> else it)
         (itemsSignal s)"
    by (simp add: updateItem_def updatedItem_quantity_only)
next
  show "i \<notin> item_id ` set (itemsSignal s) \<longrightarrow> updateItem i u s = s"
    by (simp add: updateItem_def map_unmatched_ident)
qed

theorem updateItem_quantity_recomputes_witness:
  "map (\<lambda>it. (item_id it, quantity it, pricePerUnit it, totalCost it))
     (itemsSignal (updateItem ''1'' (no_updates\<lparr>upd_quantity := Some 5\<rparr>) two_items))
     = [(''1'', 5, 3, 15), (''2'', 1, 20, 20)]
   \<and> updateItem ''9'' (no_updates\<lparr>upd_name := Some ''Sink''\<rparr>) two_items = two_items"
  using updateItem_quantity_recomputes [of "''1''" 5 two_items]
    updateItem_quantity_recomputes
      [of "''9''" 5 two_items "no_updates\<lparr>upd_name := Some ''Sink''\<rparr>"]
  by (simp add: two_items_def initial_service_def)


subsection \<open>Where updateItem keeps the cost and the id, and where it does not\<close>

lemma updatedItem_totalCost:
  "upd_quantity u \<noteq> None \<or> upd_pricePerUnit u \<noteq> None
   \<or> (upd_totalCost u = None \<and> totalCost it = quantity it * pricePerUnit it)
   \<Longrightarrow> totalCost (updatedItem it u) = quantity (updatedItem it u) * pricePerUnit (updatedItem it u)"
  by (auto simp: updatedItem_def spread_def Let_def split: option.splits)

lemma updatedItem_item_id:
  "upd_item_id u = None \<Longrightarrow> item_id (updatedItem it u) = item_id it"
  by (simp add: updatedItem_def spread_def Let_def split: option.splits)

lemma updateItem_keeps_ids:
  "upd_item_id u = None \<Longrightarrow>
   map item_id (itemsSignal (updateItem i u s)) = map item_id (itemsSignal s)"
  by (simp add: updateItem_def updatedItem_item_id)

text \<open>
  Claim C3, at an input where the code breaks it. \<open>updateItem('1', {totalCost: 5})\<close>
  on an item with quantity 2 and price 3 stores \<open>totalCost = 5\<close>: the spread copies the
  property and, as neither \<open>quantity\<close> nor \<open>pricePerUnit\<close> is given, nothing recomputes
  it.
\<close>

theorem updateItem_overwrites_totalCost:
  "map (\<lambda>it. (quantity it, pricePerUnit it, totalCost it))
     (itemsSignal (updateItem ''1'' (no_updates\<lparr>upd_totalCost := Some 5\<rparr>) two_items))
   = [(2, 3, 5), (1, 20, 20)]"
  by (simp add: updateItem_def updatedItem_def spread_def no_updates_def two_items_def
      initial_service_def)

text \<open>
  Claim C9, at an input where the code breaks it. \<open>updateItem('1', {id: '7'})\<close>
  changes the id of the stored item \<open>'1'\<close> to \<open>'7'\<close>: the spread copies the property
  \<open>id\<close> like any other.
\<close>

theorem updateItem_overwrites_id:
  "map item_id (itemsSignal (updateItem ''1'' (no_updates\<lparr>upd_item_id := Some ''7''\<rparr>) two_items))
   = [''7'', ''2'']"
  by (simp add: updateItem_def updatedItem_def spread_def no_updates_def two_items_def
      initial_service_def)

subsection \<open>totalBudget and budgetDifference\<close>

lemma foldl_plus_sum_list:
  "foldl (\<lambda>sum item. sum + f item) a xs = a + sum_list (map f xs)"
  for a :: real
  by (induction xs arbitrary: a) simp_all

lemma totalBudget_sum_list: "totalBudget s = sum_list (map totalCost (itemsSignal s))"
  by (simp add: totalBudget_def foldl_plus_sum_list)

lemma crud_step_userBudget: "userBudget (crud_step c s) = userBudget s"
  by (cases c) (simp_all add: addItem_def updateItem_def removeItem_def clearAllItems_def)

lemma crud_run_userBudget: "userBudget (crud_run ops s) = userBudget s"
  unfolding crud_run_def
  by (induction ops arbitrary: s) (simp_all add: crud_step_userBudget)

text \<open>
  Claim C8. After any sequence of calls of \<open>addItem\<close>, \<open>updateItem\<close>, \<open>removeItem\<close>
  and \<open>clearAllItems\<close>, from any state, \<open>totalBudget()\<close> is the sum of \<open>totalCost\<close> over
  \<open>allItems()\<close> and \<open>budgetDifference()\<close> is \<open>userBudget\<close> minus \<open>totalBudget()\<close>; the
  calls leave \<open>userBudget\<close> as it was.
\<close>

theorem totalBudget_after_crud:
  "totalBudget (crud_run ops s) = sum_list (map totalCost (allItems (crud_run ops s)))
   \<and> budgetDifference (crud_run ops s)
       = userBudget (crud_run ops s) - totalBudget (crud_run ops s)
   \<and> userBudget (crud_run ops s) = userBudget s"
  by (simp add: totalBudget_sum_list allItems_def budgetDifference_def crud_run_userBudget)

theorem totalBudget_after_crud_witness:
  "totalBudget (crud_run
      [Add ''3'' \<lparr>name = ''Sink'', category = '''', quantity = 10, unit = '''',
                  pricePerUnit = 12, purchased = False\<rparr>,
       Update ''1'' (no_updates\<lparr>upd_quantity := Some 5\<rparr>),
       Remove ''2'']
      (two_items\<lparr>userBudget := 100\<rparr>)) = 135
   \<and> budgetDifference (crud_run
      [Add ''3'' \<lparr>name = ''Sink'', category = '''', quantity = 10, unit = '''',
                  pricePerUnit = 12, purchased = False\<rparr>,
       Update ''1'' (no_updates\<lparr>upd_quantity := Some 5\<rparr>),
       Remove ''2'']
      (two_items\<lparr>userBudget := 100\<rparr>)) = - 35"
  using totalBudget_after_crud
    [of "[Add ''3'' \<lparr>name = ''Sink'', category = '''', quantity = 10, unit = '''',
                  pricePerUnit = 12, purchased = False\<rparr>,
          Update ''1'' (no_updates\<lparr>upd_quantity := Some 5\<rparr>),
          Remove ''2'']" "two_items\<lparr>userBudget := 100\<rparr>"]
  by (simp add: crud_run_def addItem_def newItem_def updateItem_def updatedItem_def
      spread_def no_updates_def removeItem_def two_items_def initial_service_def
      allItems_def)

section \<open>Results: the AI workflows\<close>

subsection \<open>The state each workflow ends in\<close>



lemma final_materials:
  "final ai (generateRenovationMaterials trim parse map_throws fresh p) s
     = final ai (materials_resume trim parse map_throws fresh (ai (MaterialsRequest p)))
         (s\<lparr>isGenerating := True, aiError := None\<rparr>)"
  by (simp add: generateRenovationMaterials_def)




lemma materials_parsed:
  "ai (MaterialsRequest p) = Resolved reply \<Longrightarrow> parse (trim reply) = Inr (AnArray generated) \<Longrightarrow>
   final ai (generateRenovationMaterials trim parse map_throws fresh p) s
     = s\<lparr>isGenerating := False, aiError := None,
          itemsSignal := itemsSignal s @ itemsToAdd fresh generated\<rparr>"
  by (simp add: final_materials materials_resume_def)




lemma final_suggestions:
  "shoppingItems \<noteq> [] \<Longrightarrow>
   final ai (generateShoppingListSuggestions trim parse shoppingItems) s
     = final ai (suggestions_resume trim parse
          (ai (SuggestionsRequest (map itemForPrompt shoppingItems))))
         (s\<lparr>isGeneratingShoppingList := True, aiError := None,
            shoppingListSuggestions := AnArray []\<rparr>)"
  by (simp add: generateShoppingListSuggestions_def)



lemma suggestions_stored_unchecked:
  "shoppingItems \<noteq> [] \<Longrightarrow>
   ai (SuggestionsRequest (map itemForPrompt shoppingItems)) = Resolved reply \<Longrightarrow>
   parse (trim reply) = Inr generated \<Longrightarrow>
   final ai (generateShoppingListSuggestions trim parse shoppingItems) s
     = s\<lparr>isGeneratingShoppingList := False, shoppingListSuggestions := generated,
          aiError := None\<rparr>"
  by (simp add: final_suggestions suggestions_resume_def)




subsection \<open>Failures\<close>




subsection \<open>A parsed material list\<close>

text \<open>
  Claim C7. When the request is answered and the answer parses to an array, the
  collection afterwards is the old collection, unchanged, followed by one new item per
  entry, in the order of the entries. The item of the entry at index \<open>k\<close> has the id
  drawn for it (\<open>fresh k\<close>), the entry's name and quantity, the entry's estimated price
  as \<open>pricePerUnit\<close>, \<open>purchased = false\<close>, the category \<open>'Nekategorizirano'\<close> when the
  entry's category is missing or the empty string, the unit \<open>'kom'\<close> when the entry's
  unit is missing or the empty string, and
  \<open>totalCost = quantity * estimatedPricePerUnit\<close>. No error is set and the pending
  flag is cleared.
\<close>

theorem parsed_materials_are_appended:
  "ai (MaterialsRequest p) = Resolved reply \<and> parse (trim reply) = Inr (AnArray generated)
   \<longrightarrow> final ai (generateRenovationMaterials trim parse map_throws fresh p) s
        = s\<lparr>isGenerating := False, aiError := None,
             itemsSignal := itemsSignal s @
               map (\<lambda>(k, genItem).
                     \<lparr>name = gen_name genItem,
                      category = (case gen_category genItem of
                                    None \<Rightarrow> ''Nekategorizirano''
                                  | Some c \<Rightarrow> if c = [] then ''Nekategorizirano'' else c),
                      quantity = gen_quantity genItem,
                      unit = (case gen_unit genItem of
                                None \<Rightarrow> ''kom''
                              | Some u \<Rightarrow> if u = [] then ''kom'' else u),
                      pricePerUnit = estimatedPricePerUnit genItem,
                      purchased = False,
                      item_id = fresh k,
                      totalCost = gen_quantity genItem * estimatedPricePerUnit genItem\<rparr>)
                   (enumerate 0 generated)\<rparr>"
proof
  assume h: "ai (MaterialsRequest p) = Resolved reply \<and> parse (trim reply) = Inr (AnArray generated)"
  have "itemsToAdd fresh generated =
      map (\<lambda>(k, genItem).
             \<lparr>name = gen_name genItem,
              category = (case gen_category genItem of
                            None \<Rightarrow> ''Nekategorizirano''
                          | Some c \<Rightarrow> if c = [] then ''Nekategorizirano'' else c),
              quantity = gen_quantity genItem,
              unit = (case gen_unit genItem of
                        None \<Rightarrow> ''kom''
                      | Some u \<Rightarrow> if u = [] then ''kom'' else u),
              pricePerUnit = estimatedPricePerUnit genItem,
              purchased = False,
              item_id = fresh k,
              totalCost = gen_quantity genItem * estimatedPricePerUnit genItem\<rparr>)
           (enumerate 0 generated)"
    by (auto simp: itemsToAdd_def toItem_def opt_or_else_def or_else_def
        Nekategorizirano_def kom_def split: option.splits)
  with h show "final ai (generateRenovationMaterials trim parse map_throws fresh p) s
        = s\<lparr>isGenerating := False, aiError := None,
             itemsSignal := itemsSignal s @
               map (\<lambda>(k, genItem).
                     \<lparr>name = gen_name genItem,
                      category = (case gen_category genItem of
                                    None \<Rightarrow> ''Nekategorizirano''
                                  | Some c \<Rightarrow> if c = [] then ''Nekategorizirano'' else c),
                      quantity = gen_quantity genItem,
                      unit = (case gen_unit genItem of
                                None \<Rightarrow> ''kom''
                              | Some u \<Rightarrow> if u = [] then ''kom'' else u),
                      pricePerUnit = estimatedPricePerUnit genItem,
                      purchased = False,
                      item_id = fresh k,
                      totalCost = gen_quantity genItem * estimatedPricePerUnit genItem\<rparr>)
                   (enumerate 0 generated)\<rparr>"
    using materials_parsed [where ai = ai and p = p and reply = reply and parse = parse
        and trim = trim and generated = generated and fresh = fresh and s = s
        and map_throws = map_throws]
    by simp
qed

theorem parsed_materials_are_appended_witness:
  "map (\<lambda>it. (item_id it, name it, category it, quantity it, unit it, totalCost it))
     (itemsSignal (final (answers ''[]'')
        (generateRenovationMaterials ascii_trim parses_to_paint v8_map_throws example_ids ''bathroom'') two_items))
   = [(''1'', ''Tile'', ''Flooring'', 2, ''m2'', 6),
      (''2'', ''Paint'', ''Walls'', 1, ''l'', 20),
      (''1700000000000abcdefg'', ''Paint'', ''Nekategorizirano'', 5, ''kom'', 100),
      (''1700000000001hijklmn'', ''Brush'', ''Nekategorizirano'', 2, ''kom'', 8)]"
  using parsed_materials_are_appended
      [where ai = "answers ''[]''" and p = "''bathroom''" and parse = parses_to_paint
         and trim = ascii_trim and map_throws = v8_map_throws
         and fresh = example_ids and s = two_items and reply = "''[]''"]
  by (simp add: answers_def parses_to_paint_def example_ids_def two_items_def
      initial_service_def)

subsection \<open>Validation of the input\<close>

lemma trace_suggestions_empty:
  "trace ai (generateShoppingListSuggestions trim parse []) s =
     [s\<lparr>isGeneratingShoppingList := True\<rparr>,
      s\<lparr>isGeneratingShoppingList := True, aiError := None\<rparr>,
      s\<lparr>isGeneratingShoppingList := True, aiError := None, shoppingListSuggestions := AnArray []\<rparr>,
      s\<lparr>isGeneratingShoppingList := True, aiError := Some list_is_empty,
        shoppingListSuggestions := AnArray []\<rparr>,
      s\<lparr>isGeneratingShoppingList := False, aiError := Some list_is_empty,
        shoppingListSuggestions := AnArray []\<rparr>]"
  by (simp add: generateShoppingListSuggestions_def)

lemma trace_suggestions_prefix:
  "take 3 (trace ai (generateShoppingListSuggestions trim parse shoppingItems) s) =
     [s\<lparr>isGeneratingShoppingList := True\<rparr>,
      s\<lparr>isGeneratingShoppingList := True, aiError := None\<rparr>,
      s\<lparr>isGeneratingShoppingList := True, aiError := None, shoppingListSuggestions := AnArray []\<rparr>]"
  by (simp add: generateShoppingListSuggestions_def)

lemma requests_suggestions_empty:
  "requests ai (generateShoppingListSuggestions trim parse []) s = []"
  by (simp add: generateShoppingListSuggestions_def)

lemma final_suggestions_empty:
  "final ai (generateShoppingListSuggestions trim parse []) s =
     s\<lparr>isGeneratingShoppingList := False, aiError := Some list_is_empty,
       shoppingListSuggestions := AnArray []\<rparr>"
  by (simp add: generateShoppingListSuggestions_def)

text \<open>
  Claim C10. Whatever its argument, \<open>generateShoppingListSuggestions\<close> begins with
  three writes: the pending flag to \<open>true\<close>, the error slot to \<open>null\<close>, the suggestion
  slot to the empty list. Only then is the argument looked at. So a call with the empty
  collection sends no request and ends with the error \<open>list_is_empty\<close> and the flag
  \<open>false\<close>, but the suggestions stored before the call are gone, and the pending flag
  was \<open>true\<close> in the first four of the five states the call went through.
\<close>

theorem suggestions_cleared_before_empty_check:
  "take 3 (trace ai (generateShoppingListSuggestions trim parse shoppingItems) s) =
     [s\<lparr>isGeneratingShoppingList := True\<rparr>,
      s\<lparr>isGeneratingShoppingList := True, aiError := None\<rparr>,
      s\<lparr>isGeneratingShoppingList := True, aiError := None, shoppingListSuggestions := AnArray []\<rparr>]
   \<and> (shoppingItems = [] \<longrightarrow>
        requests ai (generateShoppingListSuggestions trim parse shoppingItems) s = []
      \<and> final ai (generateShoppingListSuggestions trim parse shoppingItems) s
          = s\<lparr>isGeneratingShoppingList := False, aiError := Some list_is_empty,
               shoppingListSuggestions := AnArray []\<rparr>
      \<and> map isGeneratingShoppingList
            (trace ai (generateShoppingListSuggestions trim parse shoppingItems) s)
          = [True, True, True, True, False]
      \<and> map shoppingListSuggestions
            (trace ai (generateShoppingListSuggestions trim parse shoppingItems) s)
          = [shoppingListSuggestions s, shoppingListSuggestions s, AnArray [], AnArray [], AnArray []])"
proof
  show "take 3 (trace ai (generateShoppingListSuggestions trim parse shoppingItems) s) =
     [s\<lparr>isGeneratingShoppingList := True\<rparr>,
      s\<lparr>isGeneratingShoppingList := True, aiError := None\<rparr>,
      s\<lparr>isGeneratingShoppingList := True, aiError := None, shoppingListSuggestions := AnArray []\<rparr>]"
    by (rule trace_suggestions_prefix)
next
  show "shoppingItems = [] \<longrightarrow>
        requests ai (generateShoppingListSuggestions trim parse shoppingItems) s = []
      \<and> final ai (generateShoppingListSuggestions trim parse shoppingItems) s
          = s\<lparr>isGeneratingShoppingList := False, aiError := Some list_is_empty,
               shoppingListSuggestions := AnArray []\<rparr>
      \<and> map isGeneratingShoppingList
            (trace ai (generateShoppingListSuggestions trim parse shoppingItems) s)
          = [True, True, True, True, False]
      \<and> map shoppingListSuggestions
            (trace ai (generateShoppingListSuggestions trim parse shoppingItems) s)
          = [shoppingListSuggestions s, shoppingListSuggestions s, AnArray [], AnArray [], AnArray []]"
    by (simp add: trace_suggestions_empty requests_suggestions_empty final_suggestions_empty)
qed

theorem suggestions_cleared_before_empty_check_witness:
  "shoppingListSuggestions empty_list_with_suggestions = AnArray [a_suggestion]
   \<and> shoppingListSuggestions
       (final unavailable (generateShoppingListSuggestions ascii_trim unexpected_token [])
          empty_list_with_suggestions) = AnArray []
   \<and> map isGeneratingShoppingList
       (trace unavailable (generateShoppingListSuggestions ascii_trim unexpected_token [])
          empty_list_with_suggestions) = [True, True, True, True, False]"
  using suggestions_cleared_before_empty_check
      [where ai = unavailable and parse = unexpected_token and shoppingItems = "[]"
         and trim = ascii_trim
         and s = empty_list_with_suggestions]
  by (simp add: empty_list_with_suggestions_def initial_service_def)

text \<open>
  Claim C6 as stated fails on the service's own check: the call of
  \<open>generateShoppingListSuggestions\<close> with the empty collection is rejected (no request,
  the error slot set), yet the pending flag was written \<open>true\<close> first.
\<close>

theorem service_check_enters_pending:
  "requests unavailable (generateShoppingListSuggestions ascii_trim unexpected_token []) initial_service = []
   \<and> aiError (final unavailable (generateShoppingListSuggestions ascii_trim unexpected_token [])
        initial_service) = Some list_is_empty
   \<and> isGeneratingShoppingList
        (hd (trace unavailable (generateShoppingListSuggestions ascii_trim unexpected_token [])
           initial_service))"
  by (simp add: generateShoppingListSuggestions_def)

text \<open>
  Claim C6, amended. A blank description at \<open>onGenerateList\<close> (empty once trimmed) and
  an empty collection at \<open>onGenerateShoppingList\<close>, the handlers of the component, are
  rejected before any request: the call writes the error slot and nothing else, so the
  pending flag is never written. The service's own check in
  \<open>generateShoppingListSuggestions\<close> sends no request and sets the error slot too, but
  runs after the pending flag was set, and clears the flag before it returns.
\<close>

theorem handlers_reject_without_pending:
  "(trim aiPrompt = [] \<longrightarrow>
        trace ai (onGenerateList trim parse_m map_throws fresh aiPrompt) s
          = [s\<lparr>aiError := Some enter_description\<rparr>]
      \<and> requests ai (onGenerateList trim parse_m map_throws fresh aiPrompt) s = [])
   \<and> (allItems s = [] \<longrightarrow>
        trace ai (onGenerateShoppingList trim parse_s) s
          = [s\<lparr>aiError := Some your_list_is_empty\<rparr>]
      \<and> requests ai (onGenerateShoppingList trim parse_s) s = [])
   \<and> requests ai (generateShoppingListSuggestions trim parse_s []) s = []
   \<and> aiError (final ai (generateShoppingListSuggestions trim parse_s []) s) = Some list_is_empty
   \<and> map isGeneratingShoppingList (trace ai (generateShoppingListSuggestions trim parse_s []) s)
       = [True, True, True, True, False]"
  by (simp add: onGenerateList_def onGenerateShoppingList_def allItems_def
      trace_suggestions_empty requests_suggestions_empty final_suggestions_empty)

theorem handlers_reject_without_pending_witness:
  "map (\<lambda>t. (isGenerating t, aiError t))
       (trace unavailable (onGenerateList ascii_trim parses_to_paint v8_map_throws example_ids ''   '') initial_service)
     = [(False, Some enter_description)]
   \<and> requests unavailable (onGenerateList ascii_trim parses_to_paint v8_map_throws example_ids ''   '') initial_service
     = []
   \<and> map (\<lambda>t. (isGeneratingShoppingList t, aiError t))
       (trace unavailable (onGenerateShoppingList ascii_trim unexpected_token) initial_service)
     = [(False, Some your_list_is_empty)]
   \<and> requests unavailable (onGenerateShoppingList ascii_trim unexpected_token) initial_service = []"
  using handlers_reject_without_pending
      [where ai = unavailable and parse_m = parses_to_paint and fresh = example_ids
         and trim = ascii_trim and map_throws = v8_map_throws
         and aiPrompt = "''   ''" and s = initial_service and parse_s = unexpected_token]
  by (simp add: ascii_trim_def js_whitespace_def allItems_def initial_service_def)

section \<open>Results: categorizedItems\<close>

subsection \<open>Grouping and sorting\<close>

lemma group_items_ok:
  "\<forall>it\<in>set xs. category_key trim it \<notin> set object_prototype_keys \<Longrightarrow>
   group_items trim xs cats = Inr (fold (\<lambda>it. push_item (category_key trim it) it) xs cats)"
  by (induction xs arbitrary: cats) simp_all

lemma group_items_throws:
  "\<exists>it\<in>set xs. category_key trim it \<in> set object_prototype_keys \<Longrightarrow>
   group_items trim xs cats = Inl (Thrown (Some push_is_not_a_function))"
  by (induction xs arbitrary: cats) auto

lemma lookup_push_item:
  "lookup_group (push_item c it kvs) k
     = (if k = c then lookup_group kvs k @ [it] else lookup_group kvs k)"
  by (induction c it kvs rule: push_item.induct) (auto simp: lookup_group_def)

lemma keys_push_item:
  "map fst (push_item c it kvs)
     = (if c \<in> set (map fst kvs) then map fst kvs else map fst kvs @ [c])"
  by (induction c it kvs rule: push_item.induct) auto

lemma lookup_fold_push:
  "lookup_group (fold (\<lambda>it. push_item (category_key trim it) it) xs cats) k
     = lookup_group cats k @ filter (\<lambda>it. category_key trim it = k) xs"
  by (induction xs arbitrary: cats) (auto simp: lookup_push_item)

lemma key_set_push_item: "fst ` set (push_item c it kvs) = insert c (fst ` set kvs)"
  by (induction c it kvs rule: push_item.induct) auto

lemma keys_fold_push:
  "fst ` set (fold (\<lambda>it. push_item (category_key trim it) it) xs cats)
     = fst ` set cats \<union> category_key trim ` set xs"
  by (induction xs arbitrary: cats) (simp_all add: key_set_push_item)

lemma distinct_fold_push:
  "distinct (map fst cats) \<Longrightarrow>
   distinct (map fst (fold (\<lambda>it. push_item (category_key trim it) it) xs cats))"
  by (induction xs arbitrary: cats) (auto simp: keys_push_item)

lemma set_insort_by: "set (insort_by cmp x ys) = insert x (set ys)"
  by (induction ys) auto

lemma set_sort_by: "set (sort_by cmp xs) = set xs"
  by (induction xs) (auto simp: sort_by_def set_insort_by)

lemma distinct_insort_by: "distinct (insort_by cmp x ys) = (x \<notin> set ys \<and> distinct ys)"
  by (induction ys) (auto simp: set_insort_by)

lemma distinct_sort_by: "distinct (sort_by cmp xs) = distinct xs"
  by (induction xs) (auto simp: sort_by_def distinct_insort_by set_insort_by set_sort_by[unfolded sort_by_def])

lemma sorted_insort_by:
  assumes c: "consistent_comparator cmp" and s: "sorted_wrt (\<lambda>a b. cmp a b \<le> 0) ys"
  shows "sorted_wrt (\<lambda>a b. cmp a b \<le> 0) (insort_by cmp x ys)"
  using s
proof (induction ys)
  case Nil
  then show ?case by simp
next
  case (Cons y ys)
  have total: "\<And>a b. cmp a b \<le> 0 \<or> cmp b a \<le> 0"
    and trans: "\<And>a b c. cmp a b \<le> 0 \<Longrightarrow> cmp b c \<le> 0 \<Longrightarrow> cmp a c \<le> 0"
    using c unfolding consistent_comparator_def by blast+
  show ?case
  proof (cases "cmp x y \<le> 0")
    case True
    with Cons.prems trans show ?thesis by auto
  next
    case False
    with total have "cmp y x \<le> 0" by blast
    with False Cons show ?thesis by (auto simp: set_insort_by)
  qed
qed

lemma sorted_sort_by:
  "consistent_comparator cmp \<Longrightarrow> sorted_wrt (\<lambda>a b. cmp a b \<le> 0) (sort_by cmp xs)"
  by (induction xs) (simp_all add: sort_by_def sorted_insort_by)

lemma set_own_keys: "set (own_keys ks) = set ks"
  by (auto simp: own_keys_def)

lemma distinct_own_keys: "distinct ks \<Longrightarrow> distinct (own_keys ks)"
  by (auto simp: own_keys_def)

lemma consistent_byte_compare: "consistent_comparator byte_compare"
  unfolding consistent_comparator_def byte_compare_def
proof (intro conjI allI impI)
  fix a b :: string
  show "(if a < b then - 1 else if a = b then 0 else 1) \<le> (0::int)
      \<or> (if b < a then - 1 else if b = a then 0 else 1) \<le> (0::int)"
    by (cases "a < b"; cases "a = b"; simp add: not_less_iff_gr_or_eq)
next
  fix a b c :: string
  assume "(if a < b then - 1 else if a = b then 0 else 1) \<le> (0::int)
      \<and> (if b < c then - 1 else if b = c then 0 else 1) \<le> (0::int)"
  then have "a \<le> b" "b \<le> c"
    by (auto simp: le_less split: if_splits)
  then have "a \<le> c" by (rule order_trans)
  then show "(if a < c then - 1 else if a = c then 0 else 1) \<le> (0::int)"
    by (auto simp: le_less)
qed


lemma lookup_sorted_groups:
  "lookup_group (map (\<lambda>(k, v). (k, sort_by cmp v)) kvs) k = sort_by cmp (lookup_group kvs k)"
  by (induction kvs) (auto simp: lookup_group_def sort_by_def)

lemma keys_sorted_groups: "map (fst \<circ> (\<lambda>(k, v). (k, f v))) kvs = map fst kvs"
  by (induction kvs) auto

lemma lookup_group_Nil: "lookup_group [] k = []"
  by (simp add: lookup_group_def)

lemma consistent_on_names:
  "consistent_comparator lc \<Longrightarrow> consistent_comparator (\<lambda>a b. lc (name a) (name b))"
  unfolding consistent_comparator_def by blast

lemma categorizedItems_throws:
  "\<exists>it\<in>set (itemsSignal s). category_key trim it \<in> set object_prototype_keys \<Longrightarrow>
   categorizedItems trim lc s = Inl (Thrown (Some push_is_not_a_function))"
  by (simp add: categorizedItems_def group_items_throws)

lemma categorizedItems_value:
  assumes "\<forall>it\<in>set (itemsSignal s). category_key trim it \<notin> set object_prototype_keys"
  shows "categorizedItems trim lc s = Inr
     (map (\<lambda>k. \<lparr>categoryName = k,
                 items = sort_by (\<lambda>a b. lc (name a) (name b))
                           (filter (\<lambda>it. category_key trim it = k) (itemsSignal s))\<rparr>)
        (sort_by lc (own_keys
           (map fst (fold (\<lambda>it. push_item (category_key trim it) it) (itemsSignal s) [])))))"
  using assms
  by (simp add: categorizedItems_def group_items_ok Let_def keys_sorted_groups
      lookup_sorted_groups lookup_fold_push lookup_group_Nil)

text \<open>
  For a collection in which no trimmed category names a property inherited from
  \<open>Object.prototype\<close>, \<open>categorizedItems\<close> returns one group per distinct category key
  (the trimmed category, \<open>'Nekategorizirano'\<close> when that is empty); a group holds the
  items of its key, in the order \<open>sort\<close> gives them by name; and for a consistent
  \<open>localeCompare\<close> the groups are in non-decreasing order of their names and so are the
  items of each group.
\<close>

lemma categorizedItems_groups_and_sorts:
  assumes ok: "\<forall>it\<in>set (itemsSignal s). category_key trim it \<notin> set object_prototype_keys"
  shows "\<exists>gs. categorizedItems trim lc s = Inr gs
     \<and> set (map categoryName gs) = category_key trim ` set (itemsSignal s)
     \<and> distinct (map categoryName gs)
     \<and> (\<forall>g\<in>set gs. items g = sort_by (\<lambda>a b. lc (name a) (name b))
            (filter (\<lambda>it. category_key trim it = categoryName g) (itemsSignal s)))
     \<and> (consistent_comparator lc \<longrightarrow>
          sorted_wrt (\<lambda>a b. lc a b \<le> 0) (map categoryName gs)
        \<and> (\<forall>g\<in>set gs. sorted_wrt (\<lambda>a b. lc (name a) (name b) \<le> 0) (items g)))"
proof -
  define ks where
    "ks = sort_by lc (own_keys
       (map fst (fold (\<lambda>it. push_item (category_key trim it) it) (itemsSignal s) [])))"
  define gs where
    "gs = map (\<lambda>k. \<lparr>categoryName = k,
                 items = sort_by (\<lambda>a b. lc (name a) (name b))
                           (filter (\<lambda>it. category_key trim it = k) (itemsSignal s))\<rparr>) ks"
  have val: "categorizedItems trim lc s = Inr gs"
    unfolding gs_def ks_def by (rule categorizedItems_value [OF ok])
  have names: "map categoryName gs = ks"
    unfolding gs_def by (induction ks) simp_all
  have keyset: "set ks = category_key trim ` set (itemsSignal s)"
    unfolding ks_def by (simp add: set_sort_by set_own_keys keys_fold_push)
  have dist: "distinct ks"
    unfolding ks_def
    by (simp add: distinct_sort_by distinct_own_keys distinct_fold_push)
  have groups: "\<forall>g\<in>set gs. items g = sort_by (\<lambda>a b. lc (name a) (name b))
            (filter (\<lambda>it. category_key trim it = categoryName g) (itemsSignal s))"
    unfolding gs_def by auto
  have sorted: "consistent_comparator lc \<longrightarrow>
          sorted_wrt (\<lambda>a b. lc a b \<le> 0) (map categoryName gs)
        \<and> (\<forall>g\<in>set gs. sorted_wrt (\<lambda>a b. lc (name a) (name b) \<le> 0) (items g))"
  proof
    assume c: "consistent_comparator lc"
    have "sorted_wrt (\<lambda>a b. lc a b \<le> 0) ks"
      unfolding ks_def by (rule sorted_sort_by [OF c])
    moreover have "\<forall>g\<in>set gs. sorted_wrt (\<lambda>a b. lc (name a) (name b) \<le> 0) (items g)"
    proof
      fix g assume "g \<in> set gs"
      with groups have "items g = sort_by (\<lambda>a b. lc (name a) (name b))
            (filter (\<lambda>it. category_key trim it = categoryName g) (itemsSignal s))"
        by blast
      then show "sorted_wrt (\<lambda>a b. lc (name a) (name b) \<le> 0) (items g)"
        using sorted_sort_by [OF consistent_on_names [OF c],
            of "filter (\<lambda>it. category_key trim it = categoryName g) (itemsSignal s)"]
        by simp
    qed
    ultimately show "sorted_wrt (\<lambda>a b. lc a b \<le> 0) (map categoryName gs)
        \<and> (\<forall>g\<in>set gs. sorted_wrt (\<lambda>a b. lc (name a) (name b) \<le> 0) (items g))"
      using names by simp
  qed
  from val names keyset dist groups sorted show ?thesis by auto
qed
lemma categorizedItems_groups_and_sorts_example:
  "map (\<lambda>g. (categoryName g, map name (items g)))
     (projr (categorizedItems ascii_trim byte_compare mixed_categories))
   = [(''Nekategorizirano'', [''Sink'']), (''Walls'', [''Paint'', ''Primer''])]
   \<and> \<not> isl (categorizedItems ascii_trim byte_compare mixed_categories)"
  using categorizedItems_value
      [where s = mixed_categories and lc = byte_compare and trim = ascii_trim]
  by (simp add: mixed_categories_def initial_service_def category_key_def ascii_trim_def
      js_whitespace_def or_else_def Nekategorizirano_def object_prototype_keys_def
      own_keys_def is_array_index_def is_digit_def sort_by_def byte_compare_def)

lemma categorizedItems_groups_and_sorts_witness:
  "sorted_wrt (\<lambda>a b. byte_compare a b \<le> 0)
     (map categoryName (projr (categorizedItems ascii_trim byte_compare mixed_categories)))
   \<and> set (map categoryName (projr (categorizedItems ascii_trim byte_compare mixed_categories)))
       = {''Walls'', ''Nekategorizirano''}"
proof -
  have ok: "\<forall>it\<in>set (itemsSignal mixed_categories).
      category_key ascii_trim it \<notin> set object_prototype_keys"
    by (simp add: mixed_categories_def initial_service_def category_key_def ascii_trim_def
        js_whitespace_def or_else_def Nekategorizirano_def object_prototype_keys_def)
  have keys: "category_key ascii_trim ` set (itemsSignal mixed_categories)
      = {''Walls'', ''Nekategorizirano''}"
    by (simp add: mixed_categories_def initial_service_def category_key_def ascii_trim_def
        js_whitespace_def or_else_def Nekategorizirano_def)
  from categorizedItems_groups_and_sorts [OF ok, where lc = byte_compare] consistent_byte_compare
  obtain gs where "categorizedItems ascii_trim byte_compare mixed_categories = Inr gs"
    and "sorted_wrt (\<lambda>a b. byte_compare a b \<le> 0) (map categoryName gs)"
    and "set (map categoryName gs) = category_key ascii_trim ` set (itemsSignal mixed_categories)"
    by blast
  with keys show ?thesis by simp
qed

subsection \<open>A category that names an inherited property\<close>

text \<open>
  Claim C4, at an input where the code breaks it. With an item of category
  \<open>'constructor'\<close> in the collection (\<open>trim\<close> leaves the word as it is),
  \<open>categories['constructor']\<close> reads the function inherited from \<open>Object.prototype\<close>,
  no array is created for the key, and \<open>categories[category].push(item)\<close> throws a
  TypeError: \<open>categorizedItems\<close> returns no groups at all, whatever \<open>localeCompare\<close> is.
\<close>

theorem categorizedItems_throws_on_inherited_key:
  "trim ''constructor'' = ''constructor'' \<longrightarrow>
   categorizedItems trim lc constructor_category
     = Inl (Thrown (Some ''categories[category].push is not a function''))"
proof
  assume t: "trim ''constructor'' = ''constructor''"
  have "\<exists>it\<in>set (itemsSignal constructor_category).
      category_key trim it \<in> set object_prototype_keys"
    using t
    by (simp add: constructor_category_def initial_service_def category_key_def
        or_else_def object_prototype_keys_def)
  then show "categorizedItems trim lc constructor_category
     = Inl (Thrown (Some ''categories[category].push is not a function''))"
    using categorizedItems_throws [of constructor_category trim lc]
    by (simp add: push_is_not_a_function_def)
qed

theorem categorizedItems_throws_on_inherited_key_witness:
  "categorizedItems ascii_trim byte_compare constructor_category
     = Inl (Thrown (Some ''categories[category].push is not a function''))"
  using categorizedItems_throws_on_inherited_key [of ascii_trim byte_compare]
  by (simp add: ascii_trim_def js_whitespace_def)

text \<open>
  \<open>categoryCosts\<close> keeps its sums in a \<open>Map\<close>, which has no inherited keys, and handles
  the same collection.
\<close>

lemma categoryCosts_on_inherited_key:
  "categoryCosts ascii_trim byte_compare constructor_category = [(''Flooring'', 6), (''constructor'', 20)]"
  by (simp add: categoryCosts_def constructor_category_def initial_service_def
      category_key_def ascii_trim_def js_whitespace_def or_else_def sort_by_def byte_compare_def)

section \<open>Further facts about the calls the claims single out\<close>

text \<open>
  \<open>addItem\<close> replaces the empty category only: a category of white space is stored as
  given (and grouped under \<open>'Nekategorizirano'\<close> by \<open>categorizedItems\<close>, which trims).
\<close>

lemma addItem_keeps_whitespace_category:
  "map category (itemsSignal (addItem ''17''
      \<lparr>name = ''Tile'', category = ''  '', quantity = 10, unit = ''m2'',
       pricePerUnit = 12, purchased = False\<rparr> initial_service)) = [''  '']"
  by (simp add: addItem_def newItem_def or_else_def initial_service_def)

text \<open>
  Every store call other than an update that carries \<open>totalCost\<close> alone keeps
  \<open>totalCost = quantity * pricePerUnit\<close> on every stored item.
\<close>

lemma crud_step_keeps_cost_consistent:
  assumes "\<not> sets_totalCost_alone c"
    and "list_all cost_consistent (itemsSignal s)"
  shows "list_all cost_consistent (itemsSignal (crud_step c s))"
proof (cases c)
  case (Add now d)
  with assms show ?thesis
    by (simp add: addItem_def newItem_def cost_consistent_def)
next
  case (Update i u)
  with assms(1) have "upd_quantity u \<noteq> None \<or> upd_pricePerUnit u \<noteq> None
      \<or> upd_totalCost u = None"
    by auto
  then have "\<And>it. cost_consistent it \<Longrightarrow> cost_consistent (updatedItem it u)"
    unfolding cost_consistent_def using updatedItem_totalCost [of u] by blast
  with assms(2) Update show ?thesis
    by (auto simp: updateItem_def list_all_iff)
next
  case (Remove i)
  with assms show ?thesis
    by (auto simp: removeItem_def list_all_iff)
next
  case Clear
  then show ?thesis by (simp add: clearAllItems_def)
qed

text \<open>
  \<open>generateRenovationMaterials\<close> has no check of its own: called with the empty
  description it sets the pending flag and sends the request.
\<close>

lemma materials_request_is_unchecked:
  "requests ai (generateRenovationMaterials trim parse map_throws fresh []) s = [MaterialsRequest []]
   \<and> isGenerating (hd (trace ai (generateRenovationMaterials trim parse map_throws fresh []) s))"
  by (simp add: generateRenovationMaterials_def materials_resume_def materials_failed_def
      split: ai_result.splits sum.splits parsed.splits)

text \<open>
  The continuation of \<open>generateRenovationMaterials\<close> appends to the collection it finds
  when it resumes, whatever that is: items stored while the request was pending stay.
\<close>

lemma materials_resume_appends:
  "parse (trim reply) = Inr (AnArray generated) \<Longrightarrow>
   final ai (materials_resume trim parse map_throws fresh (Resolved reply)) s
     = s\<lparr>isGenerating := False,
          itemsSignal := itemsSignal s @ itemsToAdd fresh generated\<rparr>"
  by (simp add: materials_resume_def)

end
